theory Spec2Isabelle
  imports Complex_Main
begin

section \<open>JavaScript numbers, as far as the attendance screen uses them\<close>

text \<open>
  The screen compares numbers and tests them for truthiness; it never inspects their bits.
  A JavaScript number is therefore modelled by its value: \<open>NaN\<close>, one of the two
  infinities, or the real number a finite double denotes (both zeros denote \<open>0\<close>; the
  comparisons and the truthiness test do not tell them apart).  The relational operators
  follow ECMAScript: every comparison with \<open>NaN\<close> is false, \<open>a > b\<close> is \<open>b < a\<close>,
  and \<open>a <= b\<close> holds when neither operand is \<open>NaN\<close> and \<open>b < a\<close> fails.
\<close>

datatype jsnum = NaN | NegInfinity | Fin real | Infinity

fun js_lt :: "jsnum \<Rightarrow> jsnum \<Rightarrow> bool" where
  "js_lt NaN b = False"
| "js_lt a NaN = False"
| "js_lt a NegInfinity = False"
| "js_lt NegInfinity b = True"
| "js_lt Infinity b = False"
| "js_lt (Fin x) Infinity = True"
| "js_lt (Fin x) (Fin y) = (x < y)"

definition js_gt :: "jsnum \<Rightarrow> jsnum \<Rightarrow> bool" where
  "js_gt a b = js_lt b a"

definition js_le :: "jsnum \<Rightarrow> jsnum \<Rightarrow> bool" where
  "js_le a b = (if a = NaN \<or> b = NaN then False else \<not> js_lt b a)"

text \<open>\<open>ToBoolean\<close> on a number: \<open>NaN\<close> and zero are falsy, everything else is truthy.\<close>

fun js_truthy :: "jsnum \<Rightarrow> bool" where
  "js_truthy NaN = False"
| "js_truthy (Fin x) = (x \<noteq> 0)"
| "js_truthy NegInfinity = True"
| "js_truthy Infinity = True"

section \<open>Data of the attendance screen\<close>

text \<open>
  \<^verbatim>\<open>interface OfficeData { id; officeName; latitude; longitude; requiredDistance? }\<close> and
  \<^verbatim>\<open>interface LocationData { lat; lng; accuracy: number | null }\<close>.  An optional or nullable
  field is an \<open>option\<close>.
\<close>

record OfficeData =
  office_id :: string
  officeName :: string
  latitude :: jsnum
  longitude :: jsnum
  requiredDistance :: "jsnum option"

record LocationData =
  lat :: jsnum
  lng :: jsnum
  accuracy :: "jsnum option"

text \<open>The value \<^verbatim>\<open>{ distance, office }\<close> that \<open>getDistanceToNearestOffice\<close> returns.\<close>

record NearestOffice =
  distance :: jsnum
  office :: "OfficeData option"

definition ACCEPTABLE_GPS_ACCURACY_THRESHOLD :: jsnum where
  "ACCEPTABLE_GPS_ACCURACY_THRESHOLD = Fin 1500"

section \<open>Double arithmetic and the haversine distance\<close>

text \<open>
  \<open>calculateDistance\<close> computes in doubles.  What an operation does with \<open>NaN\<close> and the
  infinities is fixed by IEEE 754 and written out below; what it does with finite operands
  depends on rounding and on the host's \<open>Math\<close> library, which are parameters:
  \<^item> \<open>round_result x\<close> is the double an arithmetic operation returns when its exact result
    is \<open>x\<close> (an infinity when it overflows);
  \<^item> \<open>sin_finite\<close>, \<open>cos_finite\<close> and \<open>sqrt_finite\<close> are \<open>Math.sin\<close>, \<open>Math.cos\<close> and
    \<open>Math.sqrt\<close> on finite arguments (the square root on arguments that are not negative),
    where their results are finite;
  \<^item> \<open>atan2_numbers\<close> is \<open>Math.atan2\<close> on arguments that are not \<open>NaN\<close>.
  Zeros carry no sign in this model: the source divides by the constants 180 and 2 only,
  and the arguments it gives to \<open>Math.atan2\<close> are square roots, of a sum that starts with
  a square and of 1 minus that sum, neither of which is a negative zero.
\<close>

record doubles =
  round_result :: "real \<Rightarrow> jsnum"
  sin_finite :: "real \<Rightarrow> real"
  cos_finite :: "real \<Rightarrow> real"
  sqrt_finite :: "real \<Rightarrow> real"
  atan2_numbers :: "jsnum \<Rightarrow> jsnum \<Rightarrow> jsnum"

fun js_sign :: "jsnum \<Rightarrow> real" where
  "js_sign NaN = 0"
| "js_sign NegInfinity = - 1"
| "js_sign (Fin x) = sgn x"
| "js_sign Infinity = 1"

definition infinity_of_sign :: "real \<Rightarrow> jsnum" where
  "infinity_of_sign s = (if s = 0 then NaN else if 0 < s then Infinity else NegInfinity)"

fun js_neg :: "jsnum \<Rightarrow> jsnum" where
  "js_neg NaN = NaN"
| "js_neg NegInfinity = Infinity"
| "js_neg (Fin x) = Fin (- x)"
| "js_neg Infinity = NegInfinity"

text \<open>\<open>a * b\<close>: an infinity times zero is \<open>NaN\<close>, otherwise the signs multiply.\<close>

fun js_mul :: "doubles \<Rightarrow> jsnum \<Rightarrow> jsnum \<Rightarrow> jsnum" where
  "js_mul env NaN b = NaN"
| "js_mul env a NaN = NaN"
| "js_mul env (Fin x) (Fin y) = round_result env (x * y)"
| "js_mul env a b = infinity_of_sign (js_sign a * js_sign b)"

text \<open>\<open>a + b\<close> and \<open>a - b\<close>: infinities of opposite direction give \<open>NaN\<close>.\<close>

fun js_add :: "doubles \<Rightarrow> jsnum \<Rightarrow> jsnum \<Rightarrow> jsnum" where
  "js_add env NaN b = NaN"
| "js_add env a NaN = NaN"
| "js_add env (Fin x) (Fin y) = round_result env (x + y)"
| "js_add env Infinity NegInfinity = NaN"
| "js_add env NegInfinity Infinity = NaN"
| "js_add env (Fin x) b = b"
| "js_add env a b = a"

fun js_sub :: "doubles \<Rightarrow> jsnum \<Rightarrow> jsnum \<Rightarrow> jsnum" where
  "js_sub env (Fin x) (Fin y) = round_result env (x - y)"
| "js_sub env a b = js_add env a (js_neg b)"

text \<open>\<open>a / d\<close> for a positive constant \<open>d\<close>.\<close>

fun js_div_by :: "doubles \<Rightarrow> jsnum \<Rightarrow> real \<Rightarrow> jsnum" where
  "js_div_by env (Fin x) d = round_result env (x / d)"
| "js_div_by env a d = a"

fun Math_sin :: "doubles \<Rightarrow> jsnum \<Rightarrow> jsnum" where
  "Math_sin env (Fin x) = Fin (sin_finite env x)"
| "Math_sin env a = NaN"

fun Math_cos :: "doubles \<Rightarrow> jsnum \<Rightarrow> jsnum" where
  "Math_cos env (Fin x) = Fin (cos_finite env x)"
| "Math_cos env a = NaN"

fun Math_sqrt :: "doubles \<Rightarrow> jsnum \<Rightarrow> jsnum" where
  "Math_sqrt env (Fin x) = (if x < 0 then NaN else Fin (sqrt_finite env x))"
| "Math_sqrt env Infinity = Infinity"
| "Math_sqrt env a = NaN"

definition Math_atan2 :: "doubles \<Rightarrow> jsnum \<Rightarrow> jsnum \<Rightarrow> jsnum" where
  "Math_atan2 env y x = (if y = NaN \<or> x = NaN then NaN else atan2_numbers env y x)"

text \<open>\<open>Math.PI\<close> is the double nearest to \<open>\<pi>\<close>, 884279719003555 / 2^48.\<close>

definition Math_PI :: jsnum where
  "Math_PI = Fin (884279719003555 / 281474976710656)"

text \<open>The conversion \<^verbatim>\<open>(x * Math.PI) / 180\<close>, which the source writes out four times.\<close>

definition radians :: "doubles \<Rightarrow> jsnum \<Rightarrow> jsnum" where
  "radians env x = js_div_by env (js_mul env x Math_PI) 180"

text \<open>
  \<open>calculateDistance\<close>, line by line; the names are the source's, in Latin letters.  A
  product of several factors is evaluated from the left.
\<close>

definition calculateDistance :: "doubles \<Rightarrow> jsnum \<Rightarrow> jsnum \<Rightarrow> jsnum \<Rightarrow> jsnum \<Rightarrow> jsnum" where
  "calculateDistance env lat1 lon1 lat2 lon2 =
     (let R = Fin 6371000;
          phi1 = radians env lat1;
          phi2 = radians env lat2;
          dphi = radians env (js_sub env lat2 lat1);
          dlambda = radians env (js_sub env lon2 lon1);
          a = js_add env
                (js_mul env (Math_sin env (js_div_by env dphi 2))
                            (Math_sin env (js_div_by env dphi 2)))
                (js_mul env
                   (js_mul env (js_mul env (Math_cos env phi1) (Math_cos env phi2))
                               (Math_sin env (js_div_by env dlambda 2)))
                   (Math_sin env (js_div_by env dlambda 2)));
          c = js_mul env (Fin 2)
                (Math_atan2 env (Math_sqrt env a) (Math_sqrt env (js_sub env (Fin 1) a)))
      in js_mul env R c)"

text \<open>The strict equality \<open>===\<close> on numbers: \<open>NaN\<close> equals nothing, not even itself.\<close>

definition js_strict_equals :: "jsnum \<Rightarrow> jsnum \<Rightarrow> bool" where
  "js_strict_equals a b = (if a = NaN \<or> b = NaN then False else a = b)"

text \<open>
  Properties that double arithmetic has and the theorems below rely on.  The first group:
  the exact results 0 and 1 are doubles, so they are returned as they are; a result of
  magnitude at most 1 does not overflow; a cosine lies between \<open>-1\<close> and 1; and
  \<open>Math.sin(0)\<close>, \<open>Math.sqrt(0)\<close>, \<open>Math.sqrt(1)\<close> and \<open>Math.atan2(0, 1)\<close> are exact.  The
  second: rounding and the sine are odd functions.
\<close>

definition exact_at_zero_and_one :: "doubles \<Rightarrow> bool" where
  "exact_at_zero_and_one env =
     (round_result env 0 = Fin 0 \<and> round_result env 1 = Fin 1
      \<and> (\<forall>z. \<bar>z\<bar> \<le> 1 \<longrightarrow> (\<exists>k. round_result env z = Fin k))
      \<and> (\<forall>x. \<bar>cos_finite env x\<bar> \<le> 1)
      \<and> sin_finite env 0 = 0 \<and> sqrt_finite env 0 = 0 \<and> sqrt_finite env 1 = 1
      \<and> atan2_numbers env (Fin 0) (Fin 1) = Fin 0)"

definition odd_rounding_and_sine :: "doubles \<Rightarrow> bool" where
  "odd_rounding_and_sine env =
     ((\<forall>x. round_result env (- x) = js_neg (round_result env x))
      \<and> (\<forall>x. sin_finite env (- x) = - sin_finite env x))"

section \<open>The nearest-office resolver\<close>

text \<open>
  The resolver only compares the distances it is given, so it takes the distance function
  as a parameter \<open>calc\<close> and applies it as the source does:
  \<open>calc location.lat location.lng office.latitude office.longitude\<close>.  The screen passes
  \<open>calculateDistance\<close>; what is proved of the resolver for every \<open>calc\<close> holds for it.
\<close>

type_synonym distance_fn = "jsnum \<Rightarrow> jsnum \<Rightarrow> jsnum \<Rightarrow> jsnum \<Rightarrow> jsnum"

definition office_distance :: "distance_fn \<Rightarrow> LocationData \<Rightarrow> OfficeData \<Rightarrow> jsnum" where
  "office_distance calc loc off = calc (lat loc) (lng loc) (latitude off) (longitude off)"

text \<open>
  The \<^verbatim>\<open>for (const office of assignedOffices)\<close> loop, with its two mutable variables
  \<open>minDistance\<close> and \<open>nearestOffice\<close> as accumulators.
\<close>

fun nearest_loop ::
  "distance_fn \<Rightarrow> LocationData \<Rightarrow> OfficeData list \<Rightarrow> jsnum \<Rightarrow> OfficeData option
    \<Rightarrow> jsnum \<times> OfficeData option" where
  "nearest_loop calc loc [] minDistance nearestOffice = (minDistance, nearestOffice)"
| "nearest_loop calc loc (off # rest) minDistance nearestOffice =
     (if js_lt (office_distance calc loc off) minDistance
      then nearest_loop calc loc rest (office_distance calc loc off) (Some off)
      else nearest_loop calc loc rest minDistance nearestOffice)"

definition getDistanceToNearestOffice ::
  "distance_fn \<Rightarrow> LocationData option \<Rightarrow> OfficeData list \<Rightarrow> NearestOffice" where
  "getDistanceToNearestOffice calc location assignedOffices =
     (case location of
        None \<Rightarrow> \<lparr>distance = Infinity, office = None\<rparr>
      | Some loc \<Rightarrow>
          if length assignedOffices = 0 then \<lparr>distance = Infinity, office = None\<rparr>
          else (case nearest_loop calc loc assignedOffices Infinity None of
                  (minDistance, nearestOffice) \<Rightarrow>
                    \<lparr>distance = minDistance, office = nearestOffice\<rparr>))"

section \<open>The geofence evaluation\<close>

text \<open>
  \<^verbatim>\<open>const requiredGeofenceDistance = nearestOffice?.requiredDistance || 1000\<close>: optional
  chaining gives \<open>undefined\<close> for a null office or an absent field, and \<open>||\<close> takes its
  right operand whenever the left one is falsy.
\<close>

definition requiredGeofenceDistance :: "OfficeData option \<Rightarrow> jsnum" where
  "requiredGeofenceDistance nearestOffice =
     (case nearestOffice of
        None \<Rightarrow> Fin 1000
      | Some off \<Rightarrow>
          (case requiredDistance off of
             None \<Rightarrow> Fin 1000
           | Some d \<Rightarrow> if js_truthy d then d else Fin 1000))"

text \<open>\<^verbatim>\<open>const isWithinRange = distance <= requiredGeofenceDistance\<close>, on a resolver result.\<close>

definition isWithinRange :: "NearestOffice \<Rightarrow> bool" where
  "isWithinRange r = js_le (distance r) (requiredGeofenceDistance (office r))"

text \<open>
  The threshold as the specification words it: the office's required distance, or the
  default when the field is absent.  It is compared with \<open>requiredGeofenceDistance\<close> below.
\<close>

definition threshold_as_specified :: "OfficeData \<Rightarrow> jsnum" where
  "threshold_as_specified off =
     (case requiredDistance off of None \<Rightarrow> Fin 1000 | Some d \<Rightarrow> d)"

section \<open>The screen's state and its operations\<close>

text \<open>
  The alerts of the attendance screen, and what their buttons do.  An alert raised with no
  button list shows a single button that dismisses it.
\<close>

datatype alert =
    LocationPermissionRequired
  | SignInError
  | LocationRequired
  | NoOffices
  | LowGPSAccuracy jsnum
  | NearestOfficeError
  | OutOfRange OfficeData jsnum jsnum

datatype button_action = Dismiss | OpenSettings | ProceedWithAttendance

fun alert_buttons :: "alert \<Rightarrow> (string \<times> button_action) list" where
  "alert_buttons LocationPermissionRequired = [(''Cancel'', Dismiss), (''Settings'', OpenSettings)]"
| "alert_buttons (LowGPSAccuracy a) = [(''Cancel'', Dismiss), (''Continue'', ProceedWithAttendance)]"
| "alert_buttons (OutOfRange off d req) =
     [(''Cancel'', Dismiss), (''Mark Anyway'', ProceedWithAttendance)]"
| "alert_buttons SignInError = [(''OK'', Dismiss)]"
| "alert_buttons LocationRequired = [(''OK'', Dismiss)]"
| "alert_buttons NoOffices = [(''OK'', Dismiss)]"
| "alert_buttons NearestOfficeError = [(''OK'', Dismiss)]"

text \<open>The values \<open>setError\<close> is called with; a message built from a number carries the number.\<close>

datatype screen_error =
    LocationPermissionDenied
  | LowGpsAccuracyError jsnum
  | UnableToGetLocation
  | AuthenticationRequired
  | NoOfficesAssigned
  | FetchFailed string

text \<open>
  The component's state (\<open>useState\<close>), with the signed-in user of the \<open>useUser\<close> hook (its
  id; \<open>None\<close> when nobody is signed in).  \<open>lastTap\<close> and \<open>Date.now()\<close> are milliseconds.
\<close>

record ScreenState =
  user :: "string option"
  location :: "LocationData option"
  assignedOffices :: "OfficeData list"
  error :: "screen_error option"
  locationPermissionStatus :: string
  lastTap :: int

definition initial_state :: "string option \<Rightarrow> ScreenState" where
  "initial_state u =
     \<lparr>user = u, location = None, assignedOffices = [], error = None,
      locationPermissionStatus = [], lastTap = 0\<rparr>"

text \<open>
  What the positioning service answers to the three awaited calls of \<open>getLocation\<close>: each
  promise resolves or rejects.  \<open>loc.coords\<close> has a nullable accuracy.
\<close>

datatype 'a awaited = Rejects | Resolves 'a

record LocationObjectCoords =
  coords_latitude :: jsnum
  coords_longitude :: jsnum
  coords_accuracy :: "jsnum option"

record LocationService =
  getForegroundPermissionsAsync :: "string awaited"
  requestForegroundPermissionsAsync :: "string awaited"
  getCurrentPositionAsync :: "LocationObjectCoords awaited"

text \<open>The \<open>catch\<close> block of \<open>getLocation\<close>.\<close>

definition getLocation_catch :: "ScreenState \<Rightarrow> ScreenState \<times> alert option" where
  "getLocation_catch st = (st\<lparr>error := Some UnableToGetLocation, location := None\<rparr>, None)"

text \<open>
  \<open>getLocation\<close> from \<open>getCurrentPositionAsync\<close> on:
  \<^verbatim>\<open>if (loc.coords.accuracy && loc.coords.accuracy > ACCEPTABLE_GPS_ACCURACY_THRESHOLD)\<close>
  rejects the fix; otherwise the fix is stored with its accuracy.  A null accuracy is falsy.
\<close>

definition getLocation_store :: "LocationObjectCoords \<Rightarrow> ScreenState \<Rightarrow> ScreenState \<times> alert option" where
  "getLocation_store c st =
     (st\<lparr>location :=
           Some \<lparr>lat = coords_latitude c, lng = coords_longitude c,
                 accuracy = coords_accuracy c\<rparr>\<rparr>, None)"

definition getLocation_position :: "LocationService \<Rightarrow> ScreenState \<Rightarrow> ScreenState \<times> alert option" where
  "getLocation_position svc st =
     (case getCurrentPositionAsync svc of
        Rejects \<Rightarrow> getLocation_catch st
      | Resolves c \<Rightarrow>
          (case coords_accuracy c of
             None \<Rightarrow> getLocation_store c st
           | Some a \<Rightarrow>
               if js_truthy a \<and> js_gt a ACCEPTABLE_GPS_ACCURACY_THRESHOLD
               then (st\<lparr>error := Some (LowGpsAccuracyError a), location := None\<rparr>, None)
               else getLocation_store c st))"

definition getLocation :: "LocationService \<Rightarrow> ScreenState \<Rightarrow> ScreenState \<times> alert option" where
  "getLocation svc st0 =
     (let st1 = st0\<lparr>error := None\<rparr> in
      case getForegroundPermissionsAsync svc of
        Rejects \<Rightarrow> getLocation_catch st1
      | Resolves existingStatus \<Rightarrow>
          (let st2 = st1\<lparr>locationPermissionStatus := existingStatus\<rparr> in
           if existingStatus \<noteq> ''granted''
           then (case requestForegroundPermissionsAsync svc of
                   Rejects \<Rightarrow> getLocation_catch st2
                 | Resolves status \<Rightarrow>
                     (let st3 = st2\<lparr>locationPermissionStatus := status\<rparr> in
                      if status \<noteq> ''granted''
                      then (st3\<lparr>error := Some LocationPermissionDenied, location := None\<rparr>,
                            Some LocationPermissionRequired)
                      else getLocation_position svc st3))
           else getLocation_position svc st2))"

text \<open>
  \<open>fetchAssignedOffices\<close>: the request either fails with a message (a network error, an
  unreadable or non-array body, a status that is not ok) or yields the array of offices.
\<close>

datatype offices_response = FetchFails string | FetchOffices "OfficeData list"

definition fetchAssignedOffices :: "offices_response \<Rightarrow> ScreenState \<Rightarrow> ScreenState" where
  "fetchAssignedOffices resp st =
     (if (case user st of None \<Rightarrow> True | Some uid \<Rightarrow> uid = [])
      then st\<lparr>error := Some AuthenticationRequired\<rparr>
      else (case resp of
              FetchFails msg \<Rightarrow> st\<lparr>error := Some (FetchFailed msg), assignedOffices := []\<rparr>
            | FetchOffices data \<Rightarrow>
                if length data = 0
                then st\<lparr>error := Some NoOfficesAssigned, assignedOffices := []\<rparr>
                else st\<lparr>assignedOffices := data\<rparr>))"

text \<open>
  \<open>markAttendance\<close>, up to the call of \<open>proceedWithAttendance\<close> (the request to the
  server): the tap is ignored, an alert is shown, or the attendance request proceeds.
\<close>

datatype mark_outcome = TapIgnored | ShowAlert alert | Proceed

text \<open>The part of \<open>markAttendance\<close> after the accuracy check: the geofence decision.\<close>

definition markAttendance_geofence :: "distance_fn \<Rightarrow> ScreenState \<Rightarrow> mark_outcome" where
  "markAttendance_geofence calc st =
     (let r = getDistanceToNearestOffice calc (location st) (assignedOffices st);
          required = requiredGeofenceDistance (office r)
      in case office r of
           None \<Rightarrow> ShowAlert NearestOfficeError
         | Some nearestOffice \<Rightarrow>
             if js_gt (distance r) required
             then ShowAlert (OutOfRange nearestOffice (distance r) required)
             else Proceed)"

definition markAttendance ::
  "distance_fn \<Rightarrow> int \<Rightarrow> ScreenState \<Rightarrow> ScreenState \<times> mark_outcome" where
  "markAttendance calc now st =
     (if now - lastTap st < 1500 then (st, TapIgnored)
      else
        (st\<lparr>lastTap := now\<rparr>,
         case user st of
           None \<Rightarrow> ShowAlert SignInError
         | Some uid \<Rightarrow>
             (case location st of
                None \<Rightarrow> ShowAlert LocationRequired
              | Some loc \<Rightarrow>
                  if length (assignedOffices st) = 0 then ShowAlert NoOffices
                  else
                    (case accuracy loc of
                       None \<Rightarrow> markAttendance_geofence calc st
                     | Some a \<Rightarrow>
                         if js_truthy a \<and> js_gt a ACCEPTABLE_GPS_ACCURACY_THRESHOLD
                         then ShowAlert (LowGPSAccuracy a)
                         else markAttendance_geofence calc st))))"

text \<open>
  What the component renders once loading is over and no request is in flight: the
  sign-in view, the error view (for a truthy error: every message is a non-empty string,
  unless a failed request carries an empty one), or the main view, whose Mark Attendance
  button is disabled while there is no location or no office.
\<close>

datatype view = SignInView | ErrorView screen_error | MainView bool

fun error_truthy :: "screen_error \<Rightarrow> bool" where
  "error_truthy (FetchFailed msg) = (msg \<noteq> [])"
| "error_truthy e = True"

definition screen_view :: "ScreenState \<Rightarrow> view" where
  "screen_view st =
     (case user st of
        None \<Rightarrow> SignInView
      | Some uid \<Rightarrow>
          (case error st of
             None \<Rightarrow> MainView (\<not> (location st = None \<or> length (assignedOffices st) = 0))
           | Some e \<Rightarrow>
               if error_truthy e then ErrorView e
               else MainView (\<not> (location st = None \<or> length (assignedOffices st) = 0))))"

text \<open>
  The states the screen can be in: it starts with no location, and its state changes only
  through the operations above, through signing in or out, and through \<open>setError\<close> (which
  \<open>initializeData\<close> calls on its own).  \<open>setLocation\<close> is called by \<open>getLocation\<close> only.
\<close>

inductive reachable :: "ScreenState \<Rightarrow> bool" where
  start: "reachable (initial_state u)"
| located: "reachable st \<Longrightarrow> reachable (fst (getLocation svc st))"
| fetched: "reachable st \<Longrightarrow> reachable (fetchAssignedOffices resp st)"
| marked: "reachable st \<Longrightarrow> reachable (fst (markAttendance calc now st))"
| signed: "reachable st \<Longrightarrow> reachable (st\<lparr>user := u\<rparr>)"
| reported: "reachable st \<Longrightarrow> reachable (st\<lparr>error := e\<rparr>)"

text \<open>
  The invariant of the stored location: its accuracy, when it has one, does not compare
  above the threshold.
\<close>

definition location_accuracy_ok :: "ScreenState \<Rightarrow> bool" where
  "location_accuracy_ok st =
     (case location st of
        None \<Rightarrow> True
      | Some loc \<Rightarrow>
          (case accuracy loc of
             None \<Rightarrow> True
           | Some a \<Rightarrow> \<not> js_gt a ACCEPTABLE_GPS_ACCURACY_THRESHOLD))"

text \<open>A distance along one axis, for the examples: the offices' latitudes are read as metres.\<close>

definition example_distance :: distance_fn where
  "example_distance lat1 lon1 lat2 lon2 =
     (case lat1 of
        Fin x \<Rightarrow> (case lat2 of Fin y \<Rightarrow> Fin (abs (y - x)) | _ \<Rightarrow> NaN)
      | _ \<Rightarrow> NaN)"

definition example_office :: "string \<Rightarrow> real \<Rightarrow> jsnum option \<Rightarrow> OfficeData" where
  "example_office n metres req =
     \<lparr>office_id = n, officeName = n, latitude = Fin metres, longitude = Fin 0,
      requiredDistance = req\<rparr>"

definition example_location :: "jsnum option \<Rightarrow> LocationData" where
  "example_location acc = \<lparr>lat = Fin 0, lng = Fin 0, accuracy = acc\<rparr>"

text \<open>
  A positioning service that grants the permission and reports a fix at the origin with
  the given accuracy.
\<close>

definition example_service :: "jsnum option \<Rightarrow> LocationService" where
  "example_service acc =
     \<lparr>getForegroundPermissionsAsync = Resolves ''granted'',
      requestForegroundPermissionsAsync = Resolves ''granted'',
      getCurrentPositionAsync =
        Resolves \<lparr>coords_latitude = Fin 0, coords_longitude = Fin 0, coords_accuracy = acc\<rparr>\<rparr>"

text \<open>
  An arithmetic without rounding errors, for the examples: every operation returns its
  exact result, and the two-argument arctangent takes its IEEE 754 values at the infinities.
\<close>

fun exact_atan2 :: "jsnum \<Rightarrow> jsnum \<Rightarrow> jsnum" where
  "exact_atan2 NaN x = NaN"
| "exact_atan2 y NaN = NaN"
| "exact_atan2 (Fin u) (Fin v) =
     Fin (if 0 < v then arctan (u / v)
          else if v < 0 then (if 0 \<le> u then arctan (u / v) + pi else arctan (u / v) - pi)
          else if 0 < u then pi / 2 else if u < 0 then - pi / 2 else 0)"
| "exact_atan2 (Fin u) Infinity = Fin 0"
| "exact_atan2 (Fin u) NegInfinity = Fin (if 0 \<le> u then pi else - pi)"
| "exact_atan2 Infinity (Fin v) = Fin (pi / 2)"
| "exact_atan2 NegInfinity (Fin v) = Fin (- pi / 2)"
| "exact_atan2 Infinity Infinity = Fin (pi / 4)"
| "exact_atan2 Infinity NegInfinity = Fin (3 * pi / 4)"
| "exact_atan2 NegInfinity Infinity = Fin (- pi / 4)"
| "exact_atan2 NegInfinity NegInfinity = Fin (- 3 * pi / 4)"

definition exact_doubles :: doubles where
  "exact_doubles =
     \<lparr>round_result = Fin, sin_finite = sin, cos_finite = cos, sqrt_finite = sqrt,
      atan2_numbers = exact_atan2\<rparr>"

section \<open>The visit-booking form\<close>

text \<open>
  A JavaScript string is a sequence of UTF-16 code units, here natural numbers.
  \<open>String.prototype.trim\<close> strips white space and line terminators from both ends.
\<close>

type_synonym jsstring = "nat list"

definition js_string :: "string \<Rightarrow> jsstring" where
  "js_string s = map of_char s"

definition is_js_whitespace :: "nat \<Rightarrow> bool" where
  "is_js_whitespace c =
     (c \<in> set [9, 10, 11, 12, 13, 32, 160, 5760, 8232, 8233, 8239, 8287, 12288, 65279]
      \<or> (8192 \<le> c \<and> c \<le> 8202))"

definition js_trim :: "jsstring \<Rightarrow> jsstring" where
  "js_trim s = rev (dropWhile is_js_whitespace (rev (dropWhile is_js_whitespace s)))"

text \<open>\<^verbatim>\<open>\d\<close> is an ASCII digit, \<^verbatim>\<open>\D\<close> any other code unit.\<close>

definition is_digit :: "nat \<Rightarrow> bool" where
  "is_digit c = (48 \<le> c \<and> c \<le> 57)"

definition is_alnum :: "nat \<Rightarrow> bool" where
  "is_alnum c = ((97 \<le> c \<and> c \<le> 122) \<or> (65 \<le> c \<and> c \<le> 90) \<or> is_digit c)"

text \<open>
  The e-mail pattern
  \<^verbatim>\<open>^[a-zA-Z0-9.!#$%&'*+/=?^_`{|}~-]+@LABEL(?:\.LABEL)*$\<close> with \<open>LABEL\<close> standing for
  \<^verbatim>\<open>[a-zA-Z0-9](?:[a-zA-Z0-9-]{0,61}[a-zA-Z0-9])?\<close>.  Neither character class contains
  \<open>@\<close> and a label contains no dot, so a string matches in one way only: the part before
  its first \<open>@\<close> is the local part, and the rest, cut at the dots, is the list of labels.  A
  label is one to 63 letters, digits and hyphens that neither starts nor ends with a hyphen.
\<close>

definition is_local_char :: "nat \<Rightarrow> bool" where
  "is_local_char c =
     (is_alnum c \<or>
      c \<in> set [46, 33, 35, 36, 37, 38, 39, 42, 43, 47, 61, 63, 94, 95, 96, 123, 124, 125, 126, 45])"

definition is_label :: "jsstring \<Rightarrow> bool" where
  "is_label l =
     (l \<noteq> [] \<and> length l \<le> 63 \<and> list_all (\<lambda>c. is_alnum c \<or> c = 45) l
      \<and> is_alnum (hd l) \<and> is_alnum (last l))"

fun split_on :: "nat \<Rightarrow> jsstring \<Rightarrow> jsstring list" where
  "split_on sep [] = [[]]"
| "split_on sep (c # cs) =
     (if c = sep then [] # split_on sep cs
      else (case split_on sep cs of
              [] \<Rightarrow> [[c]]
            | piece # pieces \<Rightarrow> (c # piece) # pieces))"

definition emailRegex_test :: "jsstring \<Rightarrow> bool" where
  "emailRegex_test s =
     (let local_part = takeWhile (\<lambda>c. c \<noteq> 64) s in
      local_part \<noteq> [] \<and> list_all is_local_char local_part \<and>
      (case dropWhile (\<lambda>c. c \<noteq> 64) s of
         [] \<Rightarrow> False
       | c # host \<Rightarrow> list_all is_label (split_on 46 host)))"

text \<open>\<^verbatim>\<open>/^\d{10,15}$/\<close>.\<close>

definition digits_10_to_15 :: "jsstring \<Rightarrow> bool" where
  "digits_10_to_15 s = (10 \<le> length s \<and> length s \<le> 15 \<and> list_all is_digit s)"

record VisitForm =
  name :: jsstring
  email :: jsstring
  phone :: jsstring

text \<open>
  \<open>plotId\<close> is a route parameter: absent, a string, or an array of strings.  Only the
  absent parameter and the empty string are falsy.
\<close>

datatype route_param = ParamUndefined | ParamString jsstring | ParamArray "jsstring list"

fun param_truthy :: "route_param \<Rightarrow> bool" where
  "param_truthy ParamUndefined = False"
| "param_truthy (ParamString s) = (s \<noteq> [])"
| "param_truthy (ParamArray ss) = True"

text \<open>
  \<open>validateForm\<close> returns \<open>true\<close>, or shows an alert (title and message) and returns
  \<open>false\<close>.  \<open>phoneDigits\<close> is \<^verbatim>\<open>form.phone.replace(/\D/g, '')\<close>.
\<close>

datatype validation = ReturnsTrue | AlertReturnsFalse string string

definition phoneDigits :: "VisitForm \<Rightarrow> jsstring" where
  "phoneDigits form = filter is_digit (phone form)"

definition validateForm :: "VisitForm \<Rightarrow> route_param \<Rightarrow> validation" where
  "validateForm form plotId =
     (if js_trim (name form) = []
      then AlertReturnsFalse ''Validation Error'' ''Please enter your full name''
      else if js_trim (email form) = []
      then AlertReturnsFalse ''Validation Error'' ''Please enter your email address''
      else if js_trim (phone form) = []
      then AlertReturnsFalse ''Validation Error'' ''Please enter your phone number''
      else if \<not> emailRegex_test (email form)
      then AlertReturnsFalse ''Validation Error'' ''Please enter a valid email address''
      else if length (phoneDigits form) < 10 \<or> length (phoneDigits form) > 10
      then AlertReturnsFalse ''Validation Error''
             ''Phone number must be between 10 and 15 digits''
      else if \<not> digits_10_to_15 (phoneDigits form)
      then AlertReturnsFalse ''Validation Error'' ''Phone number should contain digits only''
      else if \<not> param_truthy plotId
      then AlertReturnsFalse ''Error'' ''Plot ID is missing''
      else ReturnsTrue)"

section \<open>Facts about the comparisons\<close>

lemma js_lt_irrefl: "\<not> js_lt a a"
  by (cases a) simp_all

lemma js_lt_trans: "js_lt a b \<Longrightarrow> js_lt b c \<Longrightarrow> js_lt a c"
  by (cases a; cases b; cases c) simp_all

lemma js_lt_not_NaN: "js_lt a b \<Longrightarrow> a \<noteq> NaN \<and> b \<noteq> NaN"
  by (cases a; cases b) simp_all

lemma js_lt_imp_le: "js_lt a b \<Longrightarrow> js_le a b"
  by (cases a; cases b) (simp_all add: js_le_def)

lemma js_le_refl: "a \<noteq> NaN \<Longrightarrow> js_le a a"
  by (simp add: js_le_def js_lt_irrefl)

lemma not_js_lt_le: "a \<noteq> NaN \<Longrightarrow> b \<noteq> NaN \<Longrightarrow> \<not> js_lt a b \<Longrightarrow> js_le b a"
  by (simp add: js_le_def)

lemma js_le_lt_trans: "js_le a b \<Longrightarrow> js_lt b c \<Longrightarrow> js_lt a c"
  by (cases a; cases b; cases c) (simp_all add: js_le_def)

lemma js_lt_le_trans: "js_lt a b \<Longrightarrow> js_le b c \<Longrightarrow> js_lt a c"
  by (cases a; cases b; cases c) (simp_all add: js_le_def)

lemma js_le_trans: "js_le a b \<Longrightarrow> js_le b c \<Longrightarrow> js_le a c"
  by (cases a; cases b; cases c) (simp_all add: js_le_def)

lemma js_gt_iff_not_le: "a \<noteq> NaN \<Longrightarrow> b \<noteq> NaN \<Longrightarrow> js_gt a b = (\<not> js_le a b)"
  by (simp add: js_gt_def js_le_def)


lemma js_lt_asym: "js_lt a b \<Longrightarrow> \<not> js_lt b a"
  using js_lt_trans js_lt_irrefl by blast

lemma js_lt_not_le: "js_lt a b \<Longrightarrow> \<not> js_le b a"
  by (simp add: js_le_def)

lemma not_js_le_lt: "a \<noteq> NaN \<Longrightarrow> b \<noteq> NaN \<Longrightarrow> \<not> js_le a b \<Longrightarrow> js_lt b a"
  by (simp add: js_le_def)

section \<open>Facts about double arithmetic\<close>

text \<open>\<open>NaN\<close> propagates through every operation of \<open>calculateDistance\<close>.\<close>

lemma js_mul_NaN_right [simp]: "js_mul env a NaN = NaN"
  by (cases a) simp_all

lemma js_add_NaN_right [simp]: "js_add env a NaN = NaN"
  by (cases a) simp_all

lemma js_sub_NaN: "js_sub env a NaN = NaN" "js_sub env NaN b = NaN"
  by (cases a; simp) (cases b; simp)

lemma radians_NaN: "radians env NaN = NaN"
  by (simp add: radians_def)

lemma calculateDistance_NaN_latitude: "calculateDistance env NaN lon1 lat2 lon2 = NaN"
  by (simp add: calculateDistance_def Let_def radians_NaN js_sub_NaN Math_atan2_def)

text \<open>The distance of a point to itself: every difference is zero, and zero stays zero.\<close>

lemma radians_zero:
  assumes "round_result env 0 = Fin 0"
  shows "radians env (Fin 0) = Fin 0"
  using assms by (simp add: radians_def Math_PI_def)

lemma calculateDistance_self:
  assumes e: "exact_at_zero_and_one env" and q: "radians env (Fin x) = Fin q"
  shows "calculateDistance env (Fin x) (Fin y) (Fin x) (Fin y) = Fin 0"
proof -
  have r0: "round_result env 0 = Fin 0" and r1: "round_result env 1 = Fin 1"
    and s0: "sin_finite env 0 = 0" and q0: "sqrt_finite env 0 = 0" and q1: "sqrt_finite env 1 = 1"
    and at: "atan2_numbers env (Fin 0) (Fin 1) = Fin 0"
    and small: "\<And>z. \<bar>z\<bar> \<le> 1 \<Longrightarrow> \<exists>k. round_result env z = Fin k"
    and cosb: "\<And>x. \<bar>cos_finite env x\<bar> \<le> 1"
    using e by (simp_all add: exact_at_zero_and_one_def)
  have d: "radians env (js_sub env (Fin x) (Fin x)) = Fin 0"
    "radians env (js_sub env (Fin y) (Fin y)) = Fin 0"
    using r0 by (simp_all add: radians_zero)
  have h: "Math_sin env (js_div_by env (Fin 0) 2) = Fin 0"
    using r0 s0 by simp
  have "\<bar>cos_finite env q\<bar> * \<bar>cos_finite env q\<bar> \<le> 1"
    using cosb[of q] by (intro mult_le_one) simp_all
  then have "\<bar>cos_finite env q * cos_finite env q\<bar> \<le> 1"
    by (simp only: abs_mult)
  then obtain k where k: "round_result env (cos_finite env q * cos_finite env q) = Fin k"
    using small by blast
  have cc: "js_mul env (Math_cos env (Fin q)) (Math_cos env (Fin q)) = Fin k"
    using k by simp
  have a: "js_add env (js_mul env (Fin 0) (Fin 0))
             (js_mul env (js_mul env (Fin k) (Fin 0)) (Fin 0)) = Fin 0"
    using r0 by simp
  have c: "js_mul env (Fin 2)
             (Math_atan2 env (Math_sqrt env (Fin 0)) (Math_sqrt env (js_sub env (Fin 1) (Fin 0))))
           = Fin 0"
    using r0 r1 q0 q1 at by (simp add: Math_atan2_def)
  show ?thesis
    unfolding calculateDistance_def Let_def d h q cc a c using r0 by simp
qed

text \<open>
  Swapping the two points negates both differences; with an odd rounding and an odd sine
  the squared half-angle sines are unchanged, and the product of the cosines commutes.
\<close>

lemma js_neg_neg: "js_neg (js_neg a) = a"
  by (cases a) simp_all

lemma infinity_of_sign_minus: "infinity_of_sign (- s) = js_neg (infinity_of_sign s)"
  by (simp add: infinity_of_sign_def)

lemma js_mul_commute: "js_mul env a b = js_mul env b a"
  by (cases a; cases b) (simp_all add: mult.commute)

lemma js_mul_neg_left:
  assumes "\<forall>x. round_result env (- x) = js_neg (round_result env x)"
  shows "js_mul env (js_neg a) b = js_neg (js_mul env a b)"
  using assms by (cases a; cases b) (simp_all add: infinity_of_sign_minus sgn_minus js_neg_neg)

lemma js_mul_neg_neg:
  assumes "\<forall>x. round_result env (- x) = js_neg (round_result env x)"
  shows "js_mul env (js_neg a) (js_neg a) = js_mul env a a"
proof -
  have "js_mul env (js_neg a) (js_neg a) = js_neg (js_mul env a (js_neg a))"
    using assms by (rule js_mul_neg_left)
  also have "js_mul env a (js_neg a) = js_neg (js_mul env a a)"
    using js_mul_neg_left[OF assms, of a a] by (simp add: js_mul_commute[of env a "js_neg a"])
  finally show ?thesis by (simp add: js_neg_neg)
qed

lemma js_sub_swap:
  assumes "\<forall>x. round_result env (- x) = js_neg (round_result env x)"
  shows "js_sub env b a = js_neg (js_sub env a b)"
proof (cases a; cases b)
  fix x y assume "a = Fin x" "b = Fin y"
  moreover have "round_result env (y - x) = js_neg (round_result env (x - y))"
    using assms[rule_format, of "x - y"] by simp
  ultimately show ?thesis by simp
qed simp_all

lemma js_div_by_neg:
  assumes "\<forall>x. round_result env (- x) = js_neg (round_result env x)"
  shows "js_div_by env (js_neg a) d = js_neg (js_div_by env a d)"
proof (cases a)
  case (Fin x)
  then show ?thesis using assms[rule_format, of "x / d"] by simp
qed simp_all

lemma radians_neg:
  assumes "\<forall>x. round_result env (- x) = js_neg (round_result env x)"
  shows "radians env (js_neg a) = js_neg (radians env a)"
  by (simp add: radians_def js_mul_neg_left[OF assms] js_div_by_neg[OF assms])

lemma Math_sin_neg:
  assumes "\<forall>x. sin_finite env (- x) = - sin_finite env x"
  shows "Math_sin env (js_neg a) = js_neg (Math_sin env a)"
  using assms by (cases a) simp_all

lemma js_mul_neg_right:
  assumes "\<forall>x. round_result env (- x) = js_neg (round_result env x)"
  shows "js_mul env a (js_neg b) = js_neg (js_mul env a b)"
  using js_mul_neg_left[OF assms, of b a] by (simp add: js_mul_commute[of env a])

lemma js_mul_neg_twice:
  assumes "\<forall>x. round_result env (- x) = js_neg (round_result env x)"
  shows "js_mul env (js_mul env c (js_neg s)) (js_neg s) = js_mul env (js_mul env c s) s"
  by (simp add: js_mul_neg_right[OF assms] js_mul_neg_left[OF assms] js_neg_neg)

lemma half_angle_sine_swap:
  assumes r: "\<forall>x. round_result env (- x) = js_neg (round_result env x)"
    and s: "\<forall>x. sin_finite env (- x) = - sin_finite env x"
  shows "Math_sin env (js_div_by env (radians env (js_sub env b a)) 2)
       = js_neg (Math_sin env (js_div_by env (radians env (js_sub env a b)) 2))"
  by (simp add: js_sub_swap[OF r, of b a] radians_neg[OF r] js_div_by_neg[OF r]
      Math_sin_neg[OF s])

lemma calculateDistance_swap:
  assumes "odd_rounding_and_sine env"
  shows "calculateDistance env lat1 lon1 lat2 lon2 = calculateDistance env lat2 lon2 lat1 lon1"
proof -
  have r: "\<forall>x. round_result env (- x) = js_neg (round_result env x)"
    and s: "\<forall>x. sin_finite env (- x) = - sin_finite env x"
    using assms by (simp_all add: odd_rounding_and_sine_def)
  let ?sphi = "Math_sin env (js_div_by env (radians env (js_sub env lat2 lat1)) 2)"
  let ?slam = "Math_sin env (js_div_by env (radians env (js_sub env lon2 lon1)) 2)"
  let ?cc = "js_mul env (Math_cos env (radians env lat1)) (Math_cos env (radians env lat2))"
  have p: "Math_sin env (js_div_by env (radians env (js_sub env lat1 lat2)) 2) = js_neg ?sphi"
    by (rule half_angle_sine_swap[OF r s])
  have l: "Math_sin env (js_div_by env (radians env (js_sub env lon1 lon2)) 2) = js_neg ?slam"
    by (rule half_angle_sine_swap[OF r s])
  have c: "js_mul env (Math_cos env (radians env lat2)) (Math_cos env (radians env lat1)) = ?cc"
    by (rule js_mul_commute)
  have "js_add env (js_mul env (js_neg ?sphi) (js_neg ?sphi))
                   (js_mul env (js_mul env ?cc (js_neg ?slam)) (js_neg ?slam))
      = js_add env (js_mul env ?sphi ?sphi) (js_mul env (js_mul env ?cc ?slam) ?slam)"
    by (simp only: js_mul_neg_neg[OF r] js_mul_neg_twice[OF r])
  then show ?thesis
    unfolding calculateDistance_def Let_def p l c by simp
qed

lemma exact_doubles_exact: "exact_at_zero_and_one exact_doubles"
  by (simp add: exact_at_zero_and_one_def exact_doubles_def)

lemma exact_doubles_odd: "odd_rounding_and_sine exact_doubles"
  by (simp add: odd_rounding_and_sine_def exact_doubles_def)

section \<open>Claims about the haversine distance\<close>

text \<open>
  Claim C6, as the code has it.  For a coordinate whose latitude and longitude are finite
  and whose latitude converts to a finite number of radians, \<open>calculateDistance\<close> of the
  coordinate and itself is 0, in every double arithmetic that is exact at 0 and 1.  For
  every two coordinates, \<open>calculateDistance\<close> computes the same value in both orders, in
  every double arithmetic whose rounding and sine are odd; the two results are equal as
  JavaScript numbers exactly when that value is not \<open>NaN\<close>.
\<close>

theorem haversine_self_and_symmetry:
  "(exact_at_zero_and_one env \<and> radians env (Fin x) = Fin q
      \<longrightarrow> calculateDistance env (Fin x) (Fin y) (Fin x) (Fin y) = Fin 0)
   \<and> (odd_rounding_and_sine env
      \<longrightarrow> calculateDistance env lat1 lon1 lat2 lon2 = calculateDistance env lat2 lon2 lat1 lon1
          \<and> js_strict_equals (calculateDistance env lat1 lon1 lat2 lon2)
                              (calculateDistance env lat2 lon2 lat1 lon1)
             = (calculateDistance env lat1 lon1 lat2 lon2 \<noteq> NaN))"
proof (intro conjI impI)
  assume "exact_at_zero_and_one env \<and> radians env (Fin x) = Fin q"
  then show "calculateDistance env (Fin x) (Fin y) (Fin x) (Fin y) = Fin 0"
    using calculateDistance_self by blast
next
  assume o: "odd_rounding_and_sine env"
  then show e: "calculateDistance env lat1 lon1 lat2 lon2 = calculateDistance env lat2 lon2 lat1 lon1"
    by (rule calculateDistance_swap)
  show "js_strict_equals (calculateDistance env lat1 lon1 lat2 lon2)
                              (calculateDistance env lat2 lon2 lat1 lon1)
             = (calculateDistance env lat1 lon1 lat2 lon2 \<noteq> NaN)"
    using e by (simp add: js_strict_equals_def)
qed

theorem haversine_self_and_symmetry_witness:
  "exact_at_zero_and_one exact_doubles
   \<and> radians exact_doubles (Fin 12) = Fin (12 * (884279719003555 / 281474976710656) / 180)
   \<and> calculateDistance exact_doubles (Fin 12) (Fin 77) (Fin 12) (Fin 77) = Fin 0
   \<and> odd_rounding_and_sine exact_doubles
   \<and> calculateDistance exact_doubles (Fin 12) (Fin 77) (Fin 13) (Fin 80)
       = calculateDistance exact_doubles (Fin 13) (Fin 80) (Fin 12) (Fin 77)"
proof -
  have q: "radians exact_doubles (Fin 12) = Fin (12 * (884279719003555 / 281474976710656) / 180)"
    by (simp add: radians_def Math_PI_def exact_doubles_def)
  from haversine_self_and_symmetry
         [of exact_doubles 12 "12 * (884279719003555 / 281474976710656) / 180" 77
             "Fin 12" "Fin 77" "Fin 13" "Fin 80"]
  show ?thesis using exact_doubles_exact exact_doubles_odd q by simp
qed

text \<open>
  Claim C6 as stated speaks of every coordinate.  With a latitude of \<open>NaN\<close> the distance of
  a coordinate to itself is \<open>NaN\<close>, not 0, and the distances in the two orders are both
  \<open>NaN\<close>, which equals nothing.
\<close>

theorem haversine_NaN_counterexample:
  "calculateDistance exact_doubles NaN (Fin 0) NaN (Fin 0) = NaN
   \<and> \<not> js_strict_equals (calculateDistance exact_doubles NaN (Fin 0) NaN (Fin 0)) (Fin 0)
   \<and> \<not> js_strict_equals (calculateDistance exact_doubles NaN (Fin 0) (Fin 10) (Fin 20))
                          (calculateDistance exact_doubles (Fin 10) (Fin 20) NaN (Fin 0))"
  by (simp add: calculateDistance_NaN_latitude js_strict_equals_def)

section \<open>The resolver's loop\<close>

text \<open>
  An office can only become the nearest one through a comparison that succeeded, so a
  matched office always comes with its own distance, a number below \<open>Infinity\<close>.
\<close>

lemma nearest_loop_office:
  assumes "nearest_loop calc loc offs m n = (m', n')"
    and "n' = Some off"
    and "n = None \<or> (\<exists>o'. n = Some o' \<and> m = office_distance calc loc o' \<and> js_lt m Infinity)"
  shows "m' = office_distance calc loc off \<and> js_lt m' Infinity \<and> (off \<in> set offs \<or> n = Some off)"
  using assms
proof (induction offs arbitrary: m n)
  case Nil
  then show ?case by auto
next
  case (Cons x rest)
  show ?case
  proof (cases "js_lt (office_distance calc loc x) m")
    case True
    then have run: "nearest_loop calc loc rest (office_distance calc loc x) (Some x) = (m', n')"
      using Cons.prems(1) by simp
    have "js_lt (office_distance calc loc x) Infinity"
      using True by (cases "office_distance calc loc x"; cases m) simp_all
    then have "m' = office_distance calc loc off \<and> js_lt m' Infinity \<and> (off \<in> set rest \<or> Some x = Some off)"
      using Cons.IH[OF run Cons.prems(2)] by blast
    then show ?thesis by auto
  next
    case False
    then have run: "nearest_loop calc loc rest m n = (m', n')"
      using Cons.prems(1) by simp
    from Cons.IH[OF run Cons.prems(2) Cons.prems(3)] show ?thesis by auto
  qed
qed

lemma resolver_office_distance:
  assumes "office (getDistanceToNearestOffice calc position offs) = Some off"
  shows "\<exists>loc. position = Some loc \<and> off \<in> set offs
     \<and> distance (getDistanceToNearestOffice calc position offs) = office_distance calc loc off
     \<and> js_lt (distance (getDistanceToNearestOffice calc position offs)) Infinity"
proof (cases position)
  case None
  then show ?thesis using assms by (simp add: getDistanceToNearestOffice_def)
next
  case (Some loc)
  show ?thesis
  proof (cases "offs = []")
    case True
    then show ?thesis using assms Some by (simp add: getDistanceToNearestOffice_def)
  next
    case False
    obtain m' n' where run: "nearest_loop calc loc offs Infinity None = (m', n')"
      by (cases "nearest_loop calc loc offs Infinity None")
    then have r: "getDistanceToNearestOffice calc position offs = \<lparr>distance = m', office = n'\<rparr>"
      using Some False by (simp add: getDistanceToNearestOffice_def)
    then have "n' = Some off" using assms by simp
    from nearest_loop_office[OF run this]
    have "m' = office_distance calc loc off" "js_lt m' Infinity" "off \<in> set offs" by auto
    then show ?thesis using r Some by simp
  qed
qed

text \<open>
  The loop's invariant, whatever the distances are: either no office beat the running
  minimum, or the result is an office that beat it, that no office is strictly nearer
  than, and that every earlier office is not as near as.
\<close>

lemma nearest_loop_spec:
  assumes "m \<noteq> NaN"
    and "nearest_loop calc loc offs m n = (m', n')"
  shows "(m' = m \<and> n' = n \<and> (\<forall>off\<in>set offs. \<not> js_lt (office_distance calc loc off) m))
       \<or> (\<exists>i<length offs. n' = Some (offs ! i) \<and> m' = office_distance calc loc (offs ! i)
             \<and> js_lt m' m
             \<and> (\<forall>j<i. \<not> js_le (office_distance calc loc (offs ! j)) m')
             \<and> (\<forall>j<length offs. \<not> js_lt (office_distance calc loc (offs ! j)) m'))"
  using assms
proof (induction offs arbitrary: m n)
  case Nil
  then show ?case by simp
next
  case (Cons off rest)
  let ?d = "office_distance calc loc"
  show ?case
  proof (cases "js_lt (?d off) m")
    case True
    then have dn: "?d off \<noteq> NaN" using js_lt_not_NaN by blast
    have run: "nearest_loop calc loc rest (?d off) (Some off) = (m', n')"
      using True Cons.prems(2) by simp
    from Cons.IH[OF dn run] show ?thesis
    proof
      assume a: "m' = ?d off \<and> n' = Some off \<and> (\<forall>r\<in>set rest. \<not> js_lt (?d r) (?d off))"
      have none: "\<forall>j<length (off # rest). \<not> js_lt (?d ((off # rest) ! j)) m'"
        using a js_lt_irrefl by (auto simp: nth_Cons')
      have "0 < length (off # rest) \<and> n' = Some ((off # rest) ! 0) \<and> m' = ?d ((off # rest) ! 0)
             \<and> js_lt m' m \<and> (\<forall>j<0. \<not> js_le (?d ((off # rest) ! j)) m')"
        using a True by simp
      with none show ?thesis by blast
    next
      assume "\<exists>i<length rest. n' = Some (rest ! i) \<and> m' = ?d (rest ! i) \<and> js_lt m' (?d off)
             \<and> (\<forall>j<i. \<not> js_le (?d (rest ! j)) m')
             \<and> (\<forall>j<length rest. \<not> js_lt (?d (rest ! j)) m')"
      then obtain i where i: "i < length rest" "n' = Some (rest ! i)" "m' = ?d (rest ! i)"
        "js_lt m' (?d off)" "\<forall>j<i. \<not> js_le (?d (rest ! j)) m'"
        "\<forall>j<length rest. \<not> js_lt (?d (rest ! j)) m'" by blast
      have before: "\<forall>j<Suc i. \<not> js_le (?d ((off # rest) ! j)) m'"
        using i(4,5) js_lt_not_le by (auto simp: nth_Cons')
      have none: "\<forall>j<length (off # rest). \<not> js_lt (?d ((off # rest) ! j)) m'"
        using i(4,6) js_lt_asym by (auto simp: nth_Cons')
      have "Suc i < length (off # rest) \<and> n' = Some ((off # rest) ! Suc i)
            \<and> m' = ?d ((off # rest) ! Suc i) \<and> js_lt m' m"
        using i(1,2,3,4) True js_lt_trans by auto
      with before none show ?thesis by blast
    qed
  next
    case False
    then have run: "nearest_loop calc loc rest m n = (m', n')"
      using Cons.prems(2) by simp
    from Cons.IH[OF Cons.prems(1) run] show ?thesis
    proof
      assume "m' = m \<and> n' = n \<and> (\<forall>r\<in>set rest. \<not> js_lt (?d r) m)"
      then show ?thesis using False by simp
    next
      assume "\<exists>i<length rest. n' = Some (rest ! i) \<and> m' = ?d (rest ! i) \<and> js_lt m' m
             \<and> (\<forall>j<i. \<not> js_le (?d (rest ! j)) m')
             \<and> (\<forall>j<length rest. \<not> js_lt (?d (rest ! j)) m')"
      then obtain i where i: "i < length rest" "n' = Some (rest ! i)" "m' = ?d (rest ! i)"
        "js_lt m' m" "\<forall>j<i. \<not> js_le (?d (rest ! j)) m'"
        "\<forall>j<length rest. \<not> js_lt (?d (rest ! j)) m'" by blast
      have h1: "\<not> js_lt (?d off) m'"
        using False i(4) js_lt_trans by blast
      have h2: "\<not> js_le (?d off) m'"
      proof (cases "?d off = NaN")
        case True
        then show ?thesis by (simp add: js_le_def)
      next
        case dn: False
        have "js_le m (?d off)" using False dn Cons.prems(1) by (simp add: not_js_lt_le)
        then have "js_lt m' (?d off)" using i(4) js_lt_le_trans by blast
        then show ?thesis by (rule js_lt_not_le)
      qed
      have before: "\<forall>j<Suc i. \<not> js_le (?d ((off # rest) ! j)) m'"
        using h2 i(5) by (auto simp: nth_Cons')
      have none: "\<forall>j<length (off # rest). \<not> js_lt (?d ((off # rest) ! j)) m'"
        using h1 i(6) by (auto simp: nth_Cons')
      have "Suc i < length (off # rest) \<and> n' = Some ((off # rest) ! Suc i)
            \<and> m' = ?d ((off # rest) ! Suc i) \<and> js_lt m' m"
        using i(1,2,3,4) by auto
      with before none show ?thesis by blast
    qed
  qed
qed

text \<open>
  An office whose distance is \<open>NaN\<close> never wins a comparison: when every distance is
  \<open>NaN\<close>, as for a coordinate with a latitude of \<open>NaN\<close>, the resolver answers as for an
  empty list.
\<close>

lemma resolver_skips_NaN:
  assumes "\<forall>off\<in>set offs. office_distance calc loc off = NaN"
  shows "getDistanceToNearestOffice calc (Some loc) offs = \<lparr>distance = Infinity, office = None\<rparr>"
proof -
  have "nearest_loop calc loc offs m n = (m, n)" for m n
    using assms by (induction offs arbitrary: m n) simp_all
  then show ?thesis by (simp add: getDistanceToNearestOffice_def)
qed


lemma resolver_NaN_latitude:
  assumes "lat loc = NaN"
  shows "getDistanceToNearestOffice (calculateDistance env) (Some loc) offs
           = \<lparr>distance = Infinity, office = None\<rparr>"
  using assms
  by (intro resolver_skips_NaN) (simp add: office_distance_def calculateDistance_NaN_latitude)

lemma js_truthy_not_NaN: "js_truthy a \<Longrightarrow> a \<noteq> NaN"
  by (cases a) simp_all

lemma requiredGeofenceDistance_truthy: "js_truthy (requiredGeofenceDistance n)"
  by (simp add: requiredGeofenceDistance_def split: option.splits)

section \<open>Claims about the resolver\<close>

text \<open>
  Claim C1, as the code has it.  For every present coordinate and every office list,
  \<open>getDistanceToNearestOffice\<close> passes over the offices whose distance, as the distance
  function computes it, is \<open>NaN\<close>.  When some office has a distance below \<open>Infinity\<close>, it
  returns an office of the list paired with its own distance; that distance is at most
  the distance of every office whose distance is a number, and strictly below the
  distance of every such office that comes earlier: among the offices of least distance
  the first one wins.  When no office has a distance below \<open>Infinity\<close>, it returns the
  sentinel.  The witness has the offices 500, 200 and 800 m away, where the 200 m office
  is selected.
\<close>

theorem nearest_office_is_first_minimum:
  "((\<exists>off\<in>set offs. js_lt (office_distance calc loc off) Infinity) \<longrightarrow>
      (\<exists>i<length offs.
           office (getDistanceToNearestOffice calc (Some loc) offs) = Some (offs ! i)
         \<and> distance (getDistanceToNearestOffice calc (Some loc) offs)
             = office_distance calc loc (offs ! i)
         \<and> (\<forall>j<length offs.
               office_distance calc loc (offs ! j) = NaN
               \<or> js_le (office_distance calc loc (offs ! i)) (office_distance calc loc (offs ! j)))
         \<and> (\<forall>j<i.
               office_distance calc loc (offs ! j) = NaN
               \<or> js_lt (office_distance calc loc (offs ! i)) (office_distance calc loc (offs ! j)))))
   \<and> ((\<forall>off\<in>set offs. \<not> js_lt (office_distance calc loc off) Infinity) \<longrightarrow>
        getDistanceToNearestOffice calc (Some loc) offs = \<lparr>distance = Infinity, office = None\<rparr>)"
proof (intro conjI impI)
  let ?d = "office_distance calc loc"
  obtain m' n' where run: "nearest_loop calc loc offs Infinity None = (m', n')"
    by (cases "nearest_loop calc loc offs Infinity None")
  have r: "getDistanceToNearestOffice calc (Some loc) offs = \<lparr>distance = m', office = n'\<rparr>"
    if "offs \<noteq> []"
    using run that by (simp add: getDistanceToNearestOffice_def)
  {
    assume some: "\<exists>off\<in>set offs. js_lt (?d off) Infinity"
    then have ne: "offs \<noteq> []" by auto
    from some nearest_loop_spec[OF _ run]
    obtain i where i: "i < length offs" "n' = Some (offs ! i)" "m' = ?d (offs ! i)"
        "js_lt m' Infinity"
        "\<forall>j<i. \<not> js_le (?d (offs ! j)) m'"
        "\<forall>j<length offs. \<not> js_lt (?d (offs ! j)) m'"
      by auto
    have mn: "m' \<noteq> NaN" using i(4) js_lt_not_NaN by blast
    have le: "\<forall>j<length offs. ?d (offs ! j) = NaN \<or> js_le (?d (offs ! i)) (?d (offs ! j))"
      using i(3,6) mn not_js_lt_le by blast
    have lt: "\<forall>j<i. ?d (offs ! j) = NaN \<or> js_lt (?d (offs ! i)) (?d (offs ! j))"
      using i(3,5) mn not_js_le_lt by blast
    show "\<exists>i<length offs.
           office (getDistanceToNearestOffice calc (Some loc) offs) = Some (offs ! i)
         \<and> distance (getDistanceToNearestOffice calc (Some loc) offs) = ?d (offs ! i)
         \<and> (\<forall>j<length offs. ?d (offs ! j) = NaN \<or> js_le (?d (offs ! i)) (?d (offs ! j)))
         \<and> (\<forall>j<i. ?d (offs ! j) = NaN \<or> js_lt (?d (offs ! i)) (?d (offs ! j)))"
      unfolding r[OF ne] using i(1,2,3) le lt by auto
  }
  {
    assume none: "\<forall>off\<in>set offs. \<not> js_lt (?d off) Infinity"
    have "nearest_loop calc loc offs Infinity None = (Infinity, None)"
      using none nearest_loop_spec[OF _ run] run by auto
    then show "getDistanceToNearestOffice calc (Some loc) offs
                 = \<lparr>distance = Infinity, office = None\<rparr>"
      by (simp add: getDistanceToNearestOffice_def)
  }
qed

theorem nearest_office_is_first_minimum_witness:
  "js_lt (office_distance example_distance (example_location None) (example_office ''A'' 500 None)) Infinity
   \<and> office_distance example_distance (example_location None) (example_office ''A'' 500 None) = Fin 500
   \<and> office_distance example_distance (example_location None) (example_office ''B'' 200 None) = Fin 200
   \<and> office_distance example_distance (example_location None) (example_office ''C'' 800 None) = Fin 800
   \<and> getDistanceToNearestOffice example_distance (Some (example_location None))
        [example_office ''A'' 500 None, example_office ''B'' 200 None, example_office ''C'' 800 None]
      = \<lparr>distance = Fin 200, office = Some (example_office ''B'' 200 None)\<rparr>
   \<and> \<not> js_lt (office_distance example_distance \<lparr>lat = NaN, lng = Fin 0, accuracy = None\<rparr>
                 (example_office ''A'' 500 None)) Infinity
   \<and> getDistanceToNearestOffice example_distance (Some \<lparr>lat = NaN, lng = Fin 0, accuracy = None\<rparr>)
        [example_office ''A'' 500 None]
      = \<lparr>distance = Infinity, office = None\<rparr>"
proof -
  let ?a = "example_office ''A'' 500 None"
  let ?b = "example_office ''B'' 200 None"
  let ?c = "example_office ''C'' 800 None"
  let ?here = "example_location None"
  let ?nowhere = "\<lparr>lat = NaN, lng = Fin 0, accuracy = None\<rparr>"
  let ?d = "office_distance example_distance ?here"
  let ?r = "getDistanceToNearestOffice example_distance (Some ?here) [?a, ?b, ?c]"
  have da: "?d ?a = Fin 500" and db: "?d ?b = Fin 200" and dc: "?d ?c = Fin 800"
    by (simp_all add: office_distance_def example_distance_def example_office_def
        example_location_def)
  have dn: "office_distance example_distance ?nowhere ?a = NaN"
    by (simp add: office_distance_def example_distance_def)
  have some: "\<exists>off\<in>set [?a, ?b, ?c]. js_lt (?d off) Infinity"
    using da by simp
  have none: "\<forall>off\<in>set [?a]. \<not> js_lt (office_distance example_distance ?nowhere off) Infinity"
    using dn by simp
  have len: "length [?a, ?b, ?c] = 3" by simp
  from nearest_office_is_first_minimum[of "[?a, ?b, ?c]" example_distance ?here, unfolded len] some
  obtain i where i: "i < 3" "office ?r = Some ([?a, ?b, ?c] ! i)"
      "distance ?r = ?d ([?a, ?b, ?c] ! i)"
      "\<forall>j<3. ?d ([?a, ?b, ?c] ! j) = NaN \<or> js_le (?d ([?a, ?b, ?c] ! i)) (?d ([?a, ?b, ?c] ! j))"
    by blast
  have "(1::nat) < 3" by simp
  with i(4) have "?d ([?a, ?b, ?c] ! 1) = NaN
                  \<or> js_le (?d ([?a, ?b, ?c] ! i)) (?d ([?a, ?b, ?c] ! 1))" by blast
  then have le: "js_le (?d ([?a, ?b, ?c] ! i)) (Fin 200)"
    using db by simp
  have "i = 0 \<or> i = 1 \<or> i = 2" using i(1) by arith
  then have "i = 1" using le da dc by (auto simp: js_le_def)
  then have "office ?r = Some ?b" "distance ?r = Fin 200" using i(2,3) db by simp_all
  then have r: "?r = \<lparr>distance = Fin 200, office = Some ?b\<rparr>" by (cases ?r) simp
  from nearest_office_is_first_minimum[of "[?a]" example_distance ?nowhere] none
  have s: "getDistanceToNearestOffice example_distance (Some ?nowhere) [?a]
             = \<lparr>distance = Infinity, office = None\<rparr>" by blast
  show ?thesis using r s da db dc dn by simp
qed

text \<open>
  Claim C1 as stated has an office returned for every coordinate and every non-empty
  list.  For a coordinate with a latitude of \<open>NaN\<close>, \<open>calculateDistance\<close> is \<open>NaN\<close> and the
  resolver returns no office although one is assigned.
\<close>

theorem nearest_office_NaN_counterexample:
  "[example_office ''A'' 0 None] \<noteq> []
   \<and> office_distance (calculateDistance exact_doubles) \<lparr>lat = NaN, lng = Fin 0, accuracy = None\<rparr>
        (example_office ''A'' 0 None) = NaN
   \<and> getDistanceToNearestOffice (calculateDistance exact_doubles)
        (Some \<lparr>lat = NaN, lng = Fin 0, accuracy = None\<rparr>) [example_office ''A'' 0 None]
      = \<lparr>distance = Infinity, office = None\<rparr>
   \<and> office (getDistanceToNearestOffice (calculateDistance exact_doubles)
        (Some \<lparr>lat = NaN, lng = Fin 0, accuracy = None\<rparr>) [example_office ''A'' 0 None])
      \<noteq> Some (example_office ''A'' 0 None)"
  by (simp add: resolver_NaN_latitude office_distance_def calculateDistance_NaN_latitude)

text \<open>
  Claim C3.  For every coordinate (present or not), when the office list is empty
  \<open>getDistanceToNearestOffice\<close> returns the sentinel: no office, distance \<open>Infinity\<close>.
\<close>

theorem empty_offices_sentinel:
  "getDistanceToNearestOffice calc position [] = \<lparr>distance = Infinity, office = None\<rparr>"
  by (simp add: getDistanceToNearestOffice_def split: option.splits)

text \<open>
  Claim C8.  When the current location is null, \<open>getDistanceToNearestOffice\<close> returns the
  sentinel whatever the office list is: the same result as for an empty office list.
\<close>

theorem null_location_sentinel:
  "getDistanceToNearestOffice calc None offs = \<lparr>distance = Infinity, office = None\<rparr>
   \<and> getDistanceToNearestOffice calc None offs = getDistanceToNearestOffice calc (Some loc) []"
  by (simp add: getDistanceToNearestOffice_def)

section \<open>Claims about the geofence evaluation\<close>

text \<open>
  Claim C4.  For a nearest office whose \<open>requiredDistance\<close> field is absent, the geofence
  threshold is the default of 1000 metres, and \<open>isWithinRange\<close> compares against it.
\<close>

theorem absent_required_distance_defaults:
  assumes "requiredDistance off = None"
  shows "requiredGeofenceDistance (Some off) = Fin 1000
    \<and> isWithinRange \<lparr>distance = d, office = Some off\<rparr> = js_le d (Fin 1000)"
  using assms by (simp add: requiredGeofenceDistance_def isWithinRange_def)

theorem absent_required_distance_defaults_witness:
  "requiredDistance (example_office ''A'' 300 None) = None
   \<and> requiredGeofenceDistance (Some (example_office ''A'' 300 None)) = Fin 1000
   \<and> isWithinRange \<lparr>distance = Fin 1000, office = Some (example_office ''A'' 300 None)\<rparr>"
proof -
  have h: "requiredDistance (example_office ''A'' 300 None) = None"
    by (simp add: example_office_def)
  from absent_required_distance_defaults[OF h, of "Fin 1000"] show ?thesis
    using h by (simp add: js_le_def)
qed

text \<open>
  Claim C9.  When the nearest office carries a falsy \<open>requiredDistance\<close> (zero or \<open>NaN\<close>),
  the threshold is the default of 1000 metres and \<open>isWithinRange\<close> compares against 1000;
  the threshold is never zero, whatever the office.
\<close>

theorem falsy_required_distance_defaults:
  assumes "requiredDistance off = Some d" and "\<not> js_truthy d"
  shows "requiredGeofenceDistance (Some off) = Fin 1000
    \<and> isWithinRange \<lparr>distance = x, office = Some off\<rparr> = js_le x (Fin 1000)
    \<and> requiredGeofenceDistance n \<noteq> Fin 0"
  using assms requiredGeofenceDistance_truthy[of n]
  by (auto simp add: requiredGeofenceDistance_def isWithinRange_def)

theorem falsy_required_distance_defaults_witness:
  "requiredDistance (example_office ''Z'' 300 (Some (Fin 0))) = Some (Fin 0)
   \<and> \<not> js_truthy (Fin 0)
   \<and> requiredGeofenceDistance (Some (example_office ''Z'' 300 (Some (Fin 0)))) = Fin 1000
   \<and> isWithinRange \<lparr>distance = Fin 300, office = Some (example_office ''Z'' 300 (Some (Fin 0)))\<rparr>
   \<and> requiredDistance (example_office ''N'' 300 (Some NaN)) = Some NaN
   \<and> \<not> js_truthy NaN
   \<and> requiredGeofenceDistance (Some (example_office ''N'' 300 (Some NaN))) = Fin 1000"
proof -
  have z: "requiredDistance (example_office ''Z'' 300 (Some (Fin 0))) = Some (Fin 0)"
    and n: "requiredDistance (example_office ''N'' 300 (Some NaN)) = Some NaN"
    by (simp_all add: example_office_def)
  have fz: "\<not> js_truthy (Fin 0)" and fn: "\<not> js_truthy NaN" by simp_all
  from falsy_required_distance_defaults[OF z fz, of "Fin 300"]
       falsy_required_distance_defaults[OF n fn, of "Fin 300"]
  show ?thesis using z n by (simp add: js_le_def)
qed

text \<open>
  Claim C2, as the code has it.  For a result with a matched office, \<open>isWithinRange\<close> is
  \<open>distance <= t\<close>, where \<open>t\<close> is the office's required distance when that is present
  and truthy (neither zero nor \<open>NaN\<close>) and 1000 otherwise.  The boundary is inclusive: with
  a required distance of 1000, a distance of 999 is within range, 1000 is within range,
  and 1001 is not.
\<close>

theorem within_range_iff:
  assumes "office r = Some off"
  shows "isWithinRange r
           = js_le (distance r)
               (case requiredDistance off of
                  None \<Rightarrow> Fin 1000
                | Some d \<Rightarrow> if js_truthy d then d else Fin 1000)
       \<and> isWithinRange \<lparr>distance = Fin 999, office = Some (off\<lparr>requiredDistance := Some (Fin 1000)\<rparr>)\<rparr>
       \<and> isWithinRange \<lparr>distance = Fin 1000, office = Some (off\<lparr>requiredDistance := Some (Fin 1000)\<rparr>)\<rparr>
       \<and> \<not> isWithinRange \<lparr>distance = Fin 1001, office = Some (off\<lparr>requiredDistance := Some (Fin 1000)\<rparr>)\<rparr>"
  using assms by (simp add: isWithinRange_def requiredGeofenceDistance_def js_le_def)

theorem within_range_iff_witness:
  "office (getDistanceToNearestOffice example_distance (Some (example_location None))
            [example_office ''A'' 999 (Some (Fin 1000))])
     = Some (example_office ''A'' 999 (Some (Fin 1000)))
   \<and> distance (getDistanceToNearestOffice example_distance (Some (example_location None))
            [example_office ''A'' 999 (Some (Fin 1000))]) = Fin 999
   \<and> requiredDistance (example_office ''A'' 999 (Some (Fin 1000))) = Some (Fin 1000)
   \<and> isWithinRange (getDistanceToNearestOffice example_distance (Some (example_location None))
            [example_office ''A'' 999 (Some (Fin 1000))])"
proof -
  let ?off = "example_office ''A'' 999 (Some (Fin 1000))"
  let ?r = "getDistanceToNearestOffice example_distance (Some (example_location None)) [?off]"
  have r: "?r = \<lparr>distance = Fin 999, office = Some ?off\<rparr>"
    by (simp add: getDistanceToNearestOffice_def office_distance_def
        example_distance_def example_office_def example_location_def)
  then have m: "office ?r = Some ?off" by simp
  have t: "requiredDistance ?off = Some (Fin 1000)" by (simp add: example_office_def)
  from within_range_iff[OF m] show ?thesis
    using r t by (simp add: js_le_def)
qed

text \<open>
  Claim C2 as stated takes the office's required distance for \<open>t\<close> whenever the field is
  present.  An office 500 m away with a required distance of zero is within range for the
  code, which compares against 1000, although 500 is not at most zero.
\<close>

theorem zero_required_distance_counterexample:
  "office (getDistanceToNearestOffice example_distance (Some (example_location None))
            [example_office ''Z'' 500 (Some (Fin 0))])
     = Some (example_office ''Z'' 500 (Some (Fin 0)))
   \<and> distance (getDistanceToNearestOffice example_distance (Some (example_location None))
            [example_office ''Z'' 500 (Some (Fin 0))]) = Fin 500
   \<and> threshold_as_specified (example_office ''Z'' 500 (Some (Fin 0))) = Fin 0
   \<and> isWithinRange (getDistanceToNearestOffice example_distance (Some (example_location None))
            [example_office ''Z'' 500 (Some (Fin 0))])
   \<and> \<not> js_le (distance (getDistanceToNearestOffice example_distance (Some (example_location None))
                   [example_office ''Z'' 500 (Some (Fin 0))]))
            (threshold_as_specified (example_office ''Z'' 500 (Some (Fin 0))))"
  by (simp add: getDistanceToNearestOffice_def office_distance_def example_distance_def
      example_office_def example_location_def isWithinRange_def requiredGeofenceDistance_def
      threshold_as_specified_def js_le_def)

text \<open>
  The geofence step of \<open>markAttendance\<close> tests \<open>distance > required\<close>.  On a resolver
  result with a matched office neither number is \<open>NaN\<close>, so the step proceeds exactly when
  \<open>isWithinRange\<close> holds.
\<close>

lemma markAttendance_geofence_within_range:
  assumes "r = getDistanceToNearestOffice calc (location st) (assignedOffices st)"
    and "office r = Some off"
  shows "(markAttendance_geofence calc st = Proceed) = isWithinRange r
       \<and> (markAttendance_geofence calc st
            = ShowAlert (OutOfRange off (distance r) (requiredGeofenceDistance (Some off))))
          = (\<not> isWithinRange r)"
proof -
  let ?t = "requiredGeofenceDistance (Some off)"
  have w: "isWithinRange r = js_le (distance r) ?t"
    using assms(2) by (simp add: isWithinRange_def)
  have "js_lt (distance r) Infinity"
    using resolver_office_distance[of calc "location st" "assignedOffices st" off] assms by auto
  then have d: "distance r \<noteq> NaN" using js_lt_not_NaN by blast
  have tn: "?t \<noteq> NaN" using requiredGeofenceDistance_truthy js_truthy_not_NaN by blast
  have gt: "js_gt (distance r) ?t = (\<not> isWithinRange r)"
    using js_gt_iff_not_le[OF d tn] w by simp
  have g: "markAttendance_geofence calc st
             = (if js_gt (distance r) ?t then ShowAlert (OutOfRange off (distance r) ?t) else Proceed)"
    using assms by (simp add: markAttendance_geofence_def Let_def)
  show ?thesis using g gt by simp
qed

section \<open>Claims about the accuracy of the position\<close>

lemma falsy_not_above_threshold:
  "\<not> js_truthy a \<Longrightarrow> \<not> js_gt a ACCEPTABLE_GPS_ACCURACY_THRESHOLD"
  by (cases a) (simp_all add: js_gt_def ACCEPTABLE_GPS_ACCURACY_THRESHOLD_def)

lemma getLocation_catch_accuracy_ok: "location_accuracy_ok (fst (getLocation_catch st))"
  by (simp add: getLocation_catch_def location_accuracy_ok_def)

lemma getLocation_position_accuracy_ok: "location_accuracy_ok (fst (getLocation_position svc st))"
proof (cases "getCurrentPositionAsync svc")
  case Rejects
  then show ?thesis by (simp add: getLocation_position_def getLocation_catch_accuracy_ok)
next
  case (Resolves c)
  show ?thesis
  proof (cases "coords_accuracy c")
    case None
    then show ?thesis using Resolves
      by (simp add: getLocation_position_def getLocation_store_def location_accuracy_ok_def)
  next
    case (Some a)
    then show ?thesis using Resolves falsy_not_above_threshold[of a]
      by (auto simp add: getLocation_position_def getLocation_store_def location_accuracy_ok_def)
  qed
qed

lemma location_accuracy_ok_None: "location st = None \<Longrightarrow> location_accuracy_ok st"
  by (simp add: location_accuracy_ok_def)

lemma getLocation_accuracy_ok: "location_accuracy_ok (fst (getLocation svc st))"
  by (simp add: getLocation_def Let_def getLocation_catch_accuracy_ok
      getLocation_position_accuracy_ok location_accuracy_ok_None
      split: awaited.splits)

lemma fetchAssignedOffices_location: "location (fetchAssignedOffices resp st) = location st"
  by (simp add: fetchAssignedOffices_def split: offices_response.splits option.splits)

lemma markAttendance_location: "location (fst (markAttendance calc now st)) = location st"
  by (simp add: markAttendance_def)

lemma reachable_accuracy_ok: "reachable st \<Longrightarrow> location_accuracy_ok st"
proof (induction rule: reachable.induct)
  case (start u)
  then show ?case by (simp add: location_accuracy_ok_def initial_state_def)
next
  case (located st svc)
  show ?case by (rule getLocation_accuracy_ok)
next
  case (fetched st resp)
  then show ?case by (simp add: location_accuracy_ok_def fetchAssignedOffices_location)
next
  case (marked st calc now)
  then show ?case by (simp add: location_accuracy_ok_def markAttendance_location)
next
  case (signed st u)
  then show ?case by (simp add: location_accuracy_ok_def)
next
  case (reported st e)
  then show ?case by (simp add: location_accuracy_ok_def)
qed

lemma getLocation_discards_low_accuracy:
  assumes "getCurrentPositionAsync svc = Resolves c" and "coords_accuracy c = Some b"
    and "js_gt b ACCEPTABLE_GPS_ACCURACY_THRESHOLD"
  shows "location (fst (getLocation svc st)) = None \<and> error (fst (getLocation svc st)) \<noteq> None"
proof -
  have "js_truthy b" using assms(3)
    by (cases b) (simp_all add: js_gt_def ACCEPTABLE_GPS_ACCURACY_THRESHOLD_def)
  then show ?thesis using assms
    by (simp add: getLocation_def getLocation_position_def getLocation_catch_def Let_def
        split: awaited.splits)
qed

lemma getLocation_example_good:
  "fst (getLocation (example_service (Some (Fin 20))) (initial_state (Some ''manager'')))
     = (initial_state (Some ''manager''))
         \<lparr>location := Some (example_location (Some (Fin 20))),
          locationPermissionStatus := ''granted''\<rparr>"
  by (simp add: getLocation_def getLocation_position_def getLocation_store_def example_service_def
      example_location_def initial_state_def Let_def ACCEPTABLE_GPS_ACCURACY_THRESHOLD_def js_gt_def)

text \<open>
  Claim C10, as the code has it.  In every state the screen can reach, a stored location
  has no accuracy, or an accuracy that does not compare above 1500: it is \<open>NaN\<close> or at
  most 1500.  A fix whose reported accuracy exceeds 1500 is discarded by \<open>getLocation\<close>:
  the stored location becomes null and an error is set.
\<close>

theorem stored_accuracy_never_above_threshold:
  "(reachable st \<and> location st = Some loc \<and> accuracy loc = Some a
      \<longrightarrow> \<not> js_gt a ACCEPTABLE_GPS_ACCURACY_THRESHOLD
          \<and> (a = NaN \<or> js_le a ACCEPTABLE_GPS_ACCURACY_THRESHOLD))
   \<and> (getCurrentPositionAsync svc = Resolves c \<and> coords_accuracy c = Some b
        \<and> js_gt b ACCEPTABLE_GPS_ACCURACY_THRESHOLD
      \<longrightarrow> location (fst (getLocation svc st')) = None
          \<and> error (fst (getLocation svc st')) \<noteq> None)"
proof (intro conjI impI)
  assume h: "reachable st \<and> location st = Some loc \<and> accuracy loc = Some a"
  then have "location_accuracy_ok st" using reachable_accuracy_ok by blast
  then show ng: "\<not> js_gt a ACCEPTABLE_GPS_ACCURACY_THRESHOLD"
    using h by (simp add: location_accuracy_ok_def)
  then show "a = NaN \<or> js_le a ACCEPTABLE_GPS_ACCURACY_THRESHOLD"
    by (simp add: js_gt_def js_le_def ACCEPTABLE_GPS_ACCURACY_THRESHOLD_def)
next
  assume h: "getCurrentPositionAsync svc = Resolves c \<and> coords_accuracy c = Some b
        \<and> js_gt b ACCEPTABLE_GPS_ACCURACY_THRESHOLD"
  then show "location (fst (getLocation svc st')) = None"
    using getLocation_discards_low_accuracy by blast
  from h show "error (fst (getLocation svc st')) \<noteq> None"
    using getLocation_discards_low_accuracy by blast
qed

theorem stored_accuracy_never_above_threshold_witness:
  "reachable (fst (getLocation (example_service (Some (Fin 20))) (initial_state (Some ''manager''))))
   \<and> location (fst (getLocation (example_service (Some (Fin 20))) (initial_state (Some ''manager''))))
       = Some (example_location (Some (Fin 20)))
   \<and> accuracy (example_location (Some (Fin 20))) = Some (Fin 20)
   \<and> \<not> js_gt (Fin 20) ACCEPTABLE_GPS_ACCURACY_THRESHOLD
   \<and> js_le (Fin 20) ACCEPTABLE_GPS_ACCURACY_THRESHOLD
   \<and> getCurrentPositionAsync (example_service (Some (Fin 2000)))
       = Resolves \<lparr>coords_latitude = Fin 0, coords_longitude = Fin 0, coords_accuracy = Some (Fin 2000)\<rparr>
   \<and> js_gt (Fin 2000) ACCEPTABLE_GPS_ACCURACY_THRESHOLD
   \<and> location (fst (getLocation (example_service (Some (Fin 2000)))
        (fst (getLocation (example_service (Some (Fin 20))) (initial_state (Some ''manager'')))))) = None
   \<and> error (fst (getLocation (example_service (Some (Fin 2000)))
        (fst (getLocation (example_service (Some (Fin 20))) (initial_state (Some ''manager''))))))
       = Some (LowGpsAccuracyError (Fin 2000))"
proof -
  let ?s0 = "initial_state (Some ''manager'')"
  let ?s1 = "fst (getLocation (example_service (Some (Fin 20))) ?s0)"
  let ?c = "\<lparr>coords_latitude = Fin 0, coords_longitude = Fin 0, coords_accuracy = Some (Fin 2000)\<rparr>"
  have r: "reachable ?s1" by (intro reachable.intros)
  have l: "location ?s1 = Some (example_location (Some (Fin 20)))"
    by (simp add: getLocation_example_good)
  have a: "accuracy (example_location (Some (Fin 20))) = Some (Fin 20)"
    by (simp add: example_location_def)
  have p: "getCurrentPositionAsync (example_service (Some (Fin 2000))) = Resolves ?c"
    by (simp add: example_service_def)
  have ca: "coords_accuracy ?c = Some (Fin 2000)" by simp
  have g: "js_gt (Fin 2000) ACCEPTABLE_GPS_ACCURACY_THRESHOLD"
    by (simp add: js_gt_def ACCEPTABLE_GPS_ACCURACY_THRESHOLD_def)
  have e: "error (fst (getLocation (example_service (Some (Fin 2000))) ?s1))
             = Some (LowGpsAccuracyError (Fin 2000))"
    by (simp add: getLocation_def getLocation_position_def example_service_def Let_def
        ACCEPTABLE_GPS_ACCURACY_THRESHOLD_def js_gt_def)
  from stored_accuracy_never_above_threshold
         [of ?s1 "example_location (Some (Fin 20))" "Fin 20" "example_service (Some (Fin 2000))"
             ?c "Fin 2000" ?s1]
  show ?thesis using r l a p ca g e by simp
qed

text \<open>
  Claim C10 as stated has every stored accuracy null or at most 1500.  An accuracy of
  \<open>NaN\<close> is falsy, so the fix passes the test and is stored, and \<open>NaN <= 1500\<close> is false.
\<close>

theorem stored_NaN_accuracy_counterexample:
  "reachable (fst (getLocation (example_service (Some NaN)) (initial_state (Some ''manager''))))
   \<and> location (fst (getLocation (example_service (Some NaN)) (initial_state (Some ''manager''))))
       = Some \<lparr>lat = Fin 0, lng = Fin 0, accuracy = Some NaN\<rparr>
   \<and> \<not> js_le NaN ACCEPTABLE_GPS_ACCURACY_THRESHOLD"
proof -
  have "reachable (fst (getLocation (example_service (Some NaN)) (initial_state (Some ''manager''))))"
    by (intro reachable.intros)
  then show ?thesis
    by (simp add: getLocation_def getLocation_position_def getLocation_store_def
        example_service_def initial_state_def Let_def js_le_def)
qed

text \<open>
  The branch of \<open>markAttendance\<close> that raises the low-accuracy alert (Cancel, Continue):
  it needs a stored location whose accuracy compares above 1500, and nothing else raises
  that alert.
\<close>

lemma markAttendance_low_accuracy_branch:
  assumes "\<not> now - lastTap st < 1500" and "user st = Some uid" and "location st = Some loc"
    and "assignedOffices st \<noteq> []" and "accuracy loc = Some a"
    and "js_gt a ACCEPTABLE_GPS_ACCURACY_THRESHOLD"
  shows "snd (markAttendance calc now st) = ShowAlert (LowGPSAccuracy a)"
proof -
  have "js_truthy a" using assms(6) falsy_not_above_threshold by blast
  then show ?thesis using assms by (simp add: markAttendance_def)
qed

lemma markAttendance_geofence_not_low_accuracy:
  "markAttendance_geofence calc st \<noteq> ShowAlert (LowGPSAccuracy a)"
  by (simp add: markAttendance_geofence_def Let_def split: option.splits)

lemma markAttendance_low_accuracy_only_if:
  assumes "snd (markAttendance calc now st) = ShowAlert (LowGPSAccuracy a)"
  shows "\<exists>loc b. location st = Some loc \<and> accuracy loc = Some b
           \<and> js_gt b ACCEPTABLE_GPS_ACCURACY_THRESHOLD"
  using assms markAttendance_geofence_not_low_accuracy[of calc st a]
  by (auto simp add: markAttendance_def split: if_splits option.splits)

lemma getLocation_low_accuracy_granted:
  assumes "getForegroundPermissionsAsync svc = Resolves ''granted''"
    and "getCurrentPositionAsync svc = Resolves c" and "coords_accuracy c = Some b"
    and "js_gt b ACCEPTABLE_GPS_ACCURACY_THRESHOLD"
  shows "fst (getLocation svc st)
           = st\<lparr>error := Some (LowGpsAccuracyError b), location := None,
                locationPermissionStatus := ''granted''\<rparr>"
proof -
  have "js_truthy b" using assms(4) falsy_not_above_threshold by blast
  then show ?thesis using assms
    by (simp add: getLocation_def getLocation_position_def Let_def)
qed

text \<open>
  Claim C5.  The claim has a fix of accuracy above 1500 end in the low-accuracy alert
  that asks for confirmation.  In the code no state the screen can reach makes
  \<open>markAttendance\<close> raise that alert: a fix whose reported accuracy exceeds 1500 is
  discarded by \<open>getLocation\<close>, which leaves no location and sets an error, and the screen
  then renders the error view.
\<close>

theorem low_accuracy_confirmation_unreachable:
  "(reachable st \<longrightarrow> snd (markAttendance calc now st) \<noteq> ShowAlert (LowGPSAccuracy a))
   \<and> (user st' = Some uid \<and> getForegroundPermissionsAsync svc = Resolves ''granted''
        \<and> getCurrentPositionAsync svc = Resolves c \<and> coords_accuracy c = Some b
        \<and> js_gt b ACCEPTABLE_GPS_ACCURACY_THRESHOLD
      \<longrightarrow> location (fst (getLocation svc st')) = None
          \<and> screen_view (fst (getLocation svc st')) = ErrorView (LowGpsAccuracyError b))"
proof (intro conjI impI)
  assume r: "reachable st"
  show "snd (markAttendance calc now st) \<noteq> ShowAlert (LowGPSAccuracy a)"
  proof
    assume "snd (markAttendance calc now st) = ShowAlert (LowGPSAccuracy a)"
    then obtain loc b where "location st = Some loc" "accuracy loc = Some b"
      "js_gt b ACCEPTABLE_GPS_ACCURACY_THRESHOLD"
      using markAttendance_low_accuracy_only_if by blast
    moreover have "location_accuracy_ok st" using r by (rule reachable_accuracy_ok)
    ultimately show False by (simp add: location_accuracy_ok_def)
  qed
next
  assume h: "user st' = Some uid \<and> getForegroundPermissionsAsync svc = Resolves ''granted''
        \<and> getCurrentPositionAsync svc = Resolves c \<and> coords_accuracy c = Some b
        \<and> js_gt b ACCEPTABLE_GPS_ACCURACY_THRESHOLD"
  then have e: "fst (getLocation svc st')
           = st'\<lparr>error := Some (LowGpsAccuracyError b), location := None,
                locationPermissionStatus := ''granted''\<rparr>"
    using getLocation_low_accuracy_granted by blast
  show "location (fst (getLocation svc st')) = None" by (simp add: e)
  show "screen_view (fst (getLocation svc st')) = ErrorView (LowGpsAccuracyError b)"
    using h by (simp add: e screen_view_def)
qed

theorem low_accuracy_confirmation_unreachable_witness:
  "reachable (fst (getLocation (example_service (Some (Fin 2000)))
       (fetchAssignedOffices (FetchOffices [example_office ''A'' 100 None])
          (initial_state (Some ''manager'')))))
   \<and> snd (markAttendance example_distance 5000
        (fst (getLocation (example_service (Some (Fin 2000)))
           (fetchAssignedOffices (FetchOffices [example_office ''A'' 100 None])
              (initial_state (Some ''manager''))))))
       \<noteq> ShowAlert (LowGPSAccuracy (Fin 2000))
   \<and> js_gt (Fin 2000) ACCEPTABLE_GPS_ACCURACY_THRESHOLD
   \<and> location (fst (getLocation (example_service (Some (Fin 2000)))
       (fetchAssignedOffices (FetchOffices [example_office ''A'' 100 None])
          (initial_state (Some ''manager''))))) = None
   \<and> screen_view (fst (getLocation (example_service (Some (Fin 2000)))
       (fetchAssignedOffices (FetchOffices [example_office ''A'' 100 None])
          (initial_state (Some ''manager'')))))
       = ErrorView (LowGpsAccuracyError (Fin 2000))"
proof -
  let ?s0 = "fetchAssignedOffices (FetchOffices [example_office ''A'' 100 None])
               (initial_state (Some ''manager''))"
  let ?svc = "example_service (Some (Fin 2000))"
  let ?c = "\<lparr>coords_latitude = Fin 0, coords_longitude = Fin 0, coords_accuracy = Some (Fin 2000)\<rparr>"
  have r: "reachable (fst (getLocation ?svc ?s0))" by (intro reachable.intros)
  have g: "js_gt (Fin 2000) ACCEPTABLE_GPS_ACCURACY_THRESHOLD"
    by (simp add: js_gt_def ACCEPTABLE_GPS_ACCURACY_THRESHOLD_def)
  have u: "user ?s0 = Some ''manager''"
    by (simp add: fetchAssignedOffices_def initial_state_def)
  have p: "getForegroundPermissionsAsync ?svc = Resolves ''granted''"
    "getCurrentPositionAsync ?svc = Resolves ?c" "coords_accuracy ?c = Some (Fin 2000)"
    by (simp_all add: example_service_def)
  from low_accuracy_confirmation_unreachable
         [of "fst (getLocation ?svc ?s0)" example_distance 5000 "Fin 2000" ?s0 "''manager''"
             ?svc ?c "Fin 2000"]
  show ?thesis using r g u p by simp
qed

section \<open>Claims about the visit-booking form\<close>

text \<open>The digits-only test that follows the length test can never fail.\<close>

lemma phoneDigits_digits_only: "length (phoneDigits form) = 10 \<Longrightarrow> digits_10_to_15 (phoneDigits form)"
  by (simp add: digits_10_to_15_def phoneDigits_def list_all_iff)

text \<open>
  Claim C7.  \<open>validateForm\<close> returns true only when the phone number has exactly ten
  digits once every other character is deleted.  With eleven to fifteen digits it never
  returns true; when the checks before the phone check pass, it shows the alert whose
  message speaks of ten to fifteen digits.
\<close>

theorem validateForm_phone_exactly_ten:
  "(validateForm form plotId = ReturnsTrue \<longrightarrow> length (phoneDigits form) = 10)
   \<and> (11 \<le> length (phoneDigits form) \<and> length (phoneDigits form) \<le> 15
        \<longrightarrow> validateForm form plotId \<noteq> ReturnsTrue)
   \<and> (11 \<le> length (phoneDigits form) \<and> length (phoneDigits form) \<le> 15
        \<and> js_trim (name form) \<noteq> [] \<and> js_trim (email form) \<noteq> [] \<and> js_trim (phone form) \<noteq> []
        \<and> emailRegex_test (email form)
        \<longrightarrow> validateForm form plotId
              = AlertReturnsFalse ''Validation Error''
                  ''Phone number must be between 10 and 15 digits'')"
  by (simp add: validateForm_def)

theorem validateForm_phone_exactly_ten_witness:
  "validateForm \<lparr>name = js_string ''Asha'', email = js_string ''asha@example.com'',
                  phone = js_string ''98765 43210''\<rparr> (ParamString (js_string ''42''))
     = ReturnsTrue
   \<and> length (phoneDigits \<lparr>name = js_string ''Asha'', email = js_string ''asha@example.com'',
                           phone = js_string ''98765 43210''\<rparr>) = 10
   \<and> length (phoneDigits \<lparr>name = js_string ''Asha'', email = js_string ''asha@example.com'',
                           phone = js_string ''+91 98765 43210''\<rparr>) = 12
   \<and> validateForm \<lparr>name = js_string ''Asha'', email = js_string ''asha@example.com'',
                    phone = js_string ''+91 98765 43210''\<rparr> (ParamString (js_string ''42''))
     = AlertReturnsFalse ''Validation Error'' ''Phone number must be between 10 and 15 digits''"
proof -
  let ?ok = "\<lparr>name = js_string ''Asha'', email = js_string ''asha@example.com'',
              phone = js_string ''98765 43210''\<rparr>"
  let ?long = "\<lparr>name = js_string ''Asha'', email = js_string ''asha@example.com'',
                phone = js_string ''+91 98765 43210''\<rparr>"
  let ?plot = "ParamString (js_string ''42'')"
  have accepted: "validateForm ?ok ?plot = ReturnsTrue"
    by (simp add: validateForm_def phoneDigits_def digits_10_to_15_def js_trim_def
        is_js_whitespace_def js_string_def emailRegex_test_def is_local_char_def is_alnum_def
        is_digit_def is_label_def)
  have twelve: "length (phoneDigits ?long) = 12"
    by (simp add: phoneDigits_def js_string_def is_digit_def)
  have filled: "js_trim (name ?long) \<noteq> []" "js_trim (email ?long) \<noteq> []"
    "js_trim (phone ?long) \<noteq> []"
    by (simp_all add: js_trim_def is_js_whitespace_def js_string_def)
  have mail: "emailRegex_test (email ?long)"
    by (simp add: js_string_def emailRegex_test_def is_local_char_def is_alnum_def
        is_digit_def is_label_def)
  from validateForm_phone_exactly_ten[of ?ok ?plot] validateForm_phone_exactly_ten[of ?long ?plot]
  show ?thesis using accepted twelve filled mail by simp
qed

end
